theory Spec2Isabelle
  imports Main
begin

section \<open>Lights-on prototype: the puzzle engine\<close>

text \<open>
  The repository holds three versions of one React application. \<^verbatim>\<open>src/App.js\<close> is the
  4x4 game with a neighbour rule that branches on the region of the clicked cell;
  \<^verbatim>\<open>part_001\<close> is the 5x5 game with uniform offsets, a bounds filter and a solvability
  check whose check vector counts unlit cells; \<^verbatim>\<open>part_000\<close> is the 5x5 game with an edit
  mode, and its check vector counts lit cells. Functions whose text is the same in
  \<^verbatim>\<open>part_000\<close> and \<^verbatim>\<open>part_001\<close> are embedded once; a function of \<^verbatim>\<open>src/App.js\<close>
  carries the suffix \<open>_app\<close>, and the functions that differ between the two 5x5 files
  carry \<open>_p000\<close> and \<open>_p001\<close>.
\<close>

subsection \<open>Values\<close>

text \<open>
  A puzzle state is a JavaScript object used as a dictionary from cell identifiers to
  booleans. The reducer starts from \<^verbatim>\<open>{}\<close> and only ever stores \<^verbatim>\<open>!lastValue\<close>, so
  every stored value is a boolean. A missing key reads as \<^verbatim>\<open>undefined\<close>.
\<close>

type_synonym puzzle_state = "string \<rightharpoonup> bool"

text \<open>\<^verbatim>\<open>Boolean(s[id])\<close>, \<^verbatim>\<open>!!state[id]\<close> and \<^verbatim>\<open>state[id] ? a : b\<close>: \<^verbatim>\<open>undefined\<close> is falsy.\<close>

definition truthy :: "puzzle_state \<Rightarrow> string \<Rightarrow> bool" where
  "truthy s ident = (case s ident of None \<Rightarrow> False | Some b \<Rightarrow> b)"

datatype js_error = TypeError

subsection \<open>Numbers as text\<close>

definition digitChar :: "nat \<Rightarrow> char" where
  "digitChar d = ''0123456789'' ! d"

text \<open>The decimal text of a non-negative integer, as a template literal prints it.\<close>

fun showNat :: "nat \<Rightarrow> string" where
  "showNat n = (if n < 10 then [digitChar n] else showNat (n div 10) @ [digitChar (n mod 10)])"

declare showNat.simps [simp del]

definition showInt :: "int \<Rightarrow> string" where
  "showInt i = (if i < 0 then CHR ''-'' # showNat (nat (- i)) else showNat (nat i))"

text \<open>\<^verbatim>\<open>magicValue.toString(2)\<close> on a non-negative integer: binary digits, no leading zero.\<close>

fun toString2 :: "nat \<Rightarrow> string" where
  "toString2 n = (if n < 2 then [digitChar n] else toString2 (n div 2) @ [digitChar (n mod 2)])"

declare toString2.simps [simp del]

text \<open>
  \<^verbatim>\<open>Number\<close> on a one-character string. Here it only meets the characters that
  \<open>toString2\<close> produces, \<^verbatim>\<open>'0'\<close> and \<^verbatim>\<open>'1'\<close> (lemma \<open>toString2_chars\<close>); a decimal digit
  is given its value, its distance from \<^verbatim>\<open>'0'\<close> in the character table, and any other
  character (for which JavaScript yields \<^verbatim>\<open>NaN\<close> or 0) is never reached.
\<close>

definition Number_char :: "char \<Rightarrow> nat" where
  "Number_char c = (if c \<in> set ''0123456789'' then of_char c - of_char CHR ''0'' else 0)"

subsection \<open>The 5x5 files: grid addressing\<close>

definition rowCount :: nat where "rowCount = 5"
definition colCount :: nat where "colCount = 5"
definition numCells :: nat where "numCells = rowCount * colCount"

text \<open>
  \<^verbatim>\<open>~~(index % colCount)\<close> and \<^verbatim>\<open>~~(index / colCount)\<close> for a loop index, which is a
  non-negative integer: the remainder, and the quotient truncated.
\<close>

definition getColumnRowFromIndex :: "nat \<Rightarrow> int \<times> int" where
  "getColumnRowFromIndex index = (int (index mod colCount), int (index div colCount))"

definition getPuzzleCellIdFromCooordinate :: "int \<Rightarrow> int \<Rightarrow> string" where
  "getPuzzleCellIdFromCooordinate column row = showInt column @ ''_'' @ showInt row"

subsection \<open>The 5x5 files: the solvability check\<close>

text \<open>\<^verbatim>\<open>split('')\<close> yields the characters, which a \<open>string\<close> already is.\<close>

definition decodeMagicValueToTable :: "nat \<Rightarrow> nat list" where
  "decodeMagicValueToTable magicValue = map Number_char (toString2 magicValue)"

definition magicValues :: "nat list list" where
  "magicValues = map decodeMagicValueToTable [0x15a82b5, 0x1b06c1b]"

text \<open>The loop from 0 to \<open>numCells - 1\<close> that pushes one entry per index.\<close>

definition puzzleStateToCheckTable_p000 :: "puzzle_state \<Rightarrow> nat list" where
  "puzzleStateToCheckTable_p000 state =
     map (\<lambda>i. case getColumnRowFromIndex i of (column, row) \<Rightarrow>
            let ident = getPuzzleCellIdFromCooordinate column row
            in if truthy state ident then 1 else 0) [0..<numCells]"

definition puzzleStateToCheckTable_p001 :: "puzzle_state \<Rightarrow> nat list" where
  "puzzleStateToCheckTable_p001 state =
     map (\<lambda>i. case getColumnRowFromIndex i of (column, row) \<Rightarrow>
            let ident = getPuzzleCellIdFromCooordinate column row
            in if truthy state ident then 0 else 1) [0..<numCells]"

text \<open>
  An index past the end of an array reads \<^verbatim>\<open>undefined\<close>, the product is then \<^verbatim>\<open>NaN\<close>
  and so is every later value of \<^verbatim>\<open>dotProduct\<close>; \<open>None\<close> stands for \<^verbatim>\<open>NaN\<close>, and
  \<^verbatim>\<open>NaN === 0\<close> is false.
\<close>

definition js_nth :: "nat list \<Rightarrow> nat \<Rightarrow> nat option" where
  "js_nth xs i = (if i < length xs then Some (xs ! i) else None)"

definition dotStep :: "nat list \<Rightarrow> nat list \<Rightarrow> nat \<Rightarrow> nat option \<Rightarrow> nat option" where
  "dotStep check magicValueTable i dotProduct =
     (case (dotProduct, js_nth check i, js_nth magicValueTable i) of
        (Some d, Some a, Some b) \<Rightarrow> Some ((d + a * b) mod 2)
      | _ \<Rightarrow> None)"

definition compareCheckTableAgainstMagicValueTable :: "nat list \<Rightarrow> nat list \<Rightarrow> bool" where
  "compareCheckTableAgainstMagicValueTable check magicValueTable =
     (fold (dotStep check magicValueTable) [0..<numCells] (Some 0) = Some 0)"

definition isPuzzleSolvable_p000 :: "puzzle_state \<Rightarrow> bool" where
  "isPuzzleSolvable_p000 state =
     (let check = puzzleStateToCheckTable_p000 state
      in compareCheckTableAgainstMagicValueTable check (magicValues ! 0) \<and>
         compareCheckTableAgainstMagicValueTable check (magicValues ! 1))"

definition isPuzzleSolvable_p001 :: "puzzle_state \<Rightarrow> bool" where
  "isPuzzleSolvable_p001 state =
     (let check = puzzleStateToCheckTable_p001 state
      in compareCheckTableAgainstMagicValueTable check (magicValues ! 0) \<and>
         compareCheckTableAgainstMagicValueTable check (magicValues ! 1))"

subsection \<open>The 5x5 files: the transition\<close>

definition getAffectedCoordinates :: "int \<Rightarrow> int \<Rightarrow> (int \<times> int) list" where
  "getAffectedCoordinates column row =
     [(column, row), (0, 0), (0, - 1), (0, 1), (- 1, 0), (1, 0)]"

text \<open>
  The module constants \<open>colCount\<close> and \<open>rowCount\<close> are parameters of the three
  definitions below, so that the same text can also be read at the grid size of
  \<^verbatim>\<open>src/App.js\<close>; the functions of the 5x5 files are their instances at \<open>colCount\<close>
  and \<open>rowCount\<close>. Despite its name, \<^verbatim>\<open>isOutOfBounds\<close> is true of an offset that stays
  inside the grid: it is the predicate that \<^verbatim>\<open>filter\<close> keeps.
\<close>

definition isOutOfBounds_on :: "nat \<Rightarrow> nat \<Rightarrow> int \<Rightarrow> int \<Rightarrow> int \<times> int \<Rightarrow> bool" where
  "isOutOfBounds_on cols rows column row =
     (\<lambda>(dx, dy). \<not> (column + dx < 0 \<or> column + dx \<ge> int cols \<or>
                     row + dy < 0 \<or> row + dy \<ge> int rows))"

text \<open>
  One step of the \<^verbatim>\<open>reduce\<close>: \<^verbatim>\<open>{ ...s, [id]: !lastValue }\<close> is a new object with the
  entries of \<open>s\<close> and the entry for \<open>id\<close> replaced or added.
\<close>

definition toggleOffset :: "int \<Rightarrow> int \<Rightarrow> puzzle_state \<Rightarrow> int \<times> int \<Rightarrow> puzzle_state" where
  "toggleOffset column row s = (\<lambda>(dx, dy).
     let ident = getPuzzleCellIdFromCooordinate (column + dx) (row + dy);
         lastValue = truthy s ident
     in s(ident \<mapsto> \<not> lastValue))"

text \<open>
  \<^verbatim>\<open>affected.shift()\<close> on an empty array is \<^verbatim>\<open>undefined\<close>, and destructuring it
  throws a TypeError.
\<close>

definition applyAffectedCoordinatesToState_on ::
  "nat \<Rightarrow> nat \<Rightarrow> (int \<times> int) list \<Rightarrow> puzzle_state \<Rightarrow> js_error + puzzle_state" where
  "applyAffectedCoordinatesToState_on cols rows affected state =
     (case affected of
        [] \<Rightarrow> Inl TypeError
      | (column, row) # rest \<Rightarrow>
          let outOfBounds = isOutOfBounds_on cols rows column row;
              nextState = foldl (toggleOffset column row) state (filter outOfBounds rest)
          in Inr nextState)"

definition flipLogic_on :: "nat \<Rightarrow> nat \<Rightarrow> puzzle_state \<Rightarrow> int \<Rightarrow> int \<Rightarrow> js_error + puzzle_state" where
  "flipLogic_on cols rows state column row =
     (let affected = getAffectedCoordinates column row
      in applyAffectedCoordinatesToState_on cols rows affected state)"

definition isOutOfBounds :: "int \<Rightarrow> int \<Rightarrow> int \<times> int \<Rightarrow> bool" where
  "isOutOfBounds = isOutOfBounds_on colCount rowCount"

definition applyAffectedCoordinatesToState ::
  "(int \<times> int) list \<Rightarrow> puzzle_state \<Rightarrow> js_error + puzzle_state" where
  "applyAffectedCoordinatesToState = applyAffectedCoordinatesToState_on colCount rowCount"

definition flipLogic :: "puzzle_state \<Rightarrow> int \<Rightarrow> int \<Rightarrow> js_error + puzzle_state" where
  "flipLogic = flipLogic_on colCount rowCount"

subsection \<open>\<^verbatim>\<open>src/App.js\<close>: the 4x4 transition\<close>

definition rowCount_app :: nat where "rowCount_app = 4"
definition colCount_app :: nat where "colCount_app = 4"
definition numCells_app :: nat where "numCells_app = rowCount_app * colCount_app"

definition getAffectedCoordinates_app :: "int \<Rightarrow> int \<Rightarrow> (int \<times> int) list" where
  "getAffectedCoordinates_app column row =
     [(column, row), (0, 0)] @
     (if column = 0 then
        [(1, 0)] @
        (if row = 0 then [(0, 1)]
         else if row = int rowCount_app - 1 then [(0, - 1)]
         else [(0, - 1), (0, 1)])
      else if column = int colCount_app - 1 then
        [(- 1, 0)] @
        (if row = 0 then [(0, 1)]
         else if row = int rowCount_app - 1 then [(0, - 1)]
         else [(0, - 1), (0, 1)])
      else
        [(- 1, 0)] @
        (if row = 0 then [(1, 0), (0, 1)]
         else if row = int rowCount_app - 1 then [(1, 0), (0, - 1)]
         else [(1, 0), (0, 1), (0, - 1)]))"

text \<open>The identifier is built in place here, by the same template literal.\<close>

definition toggleOffset_app :: "int \<Rightarrow> int \<Rightarrow> puzzle_state \<Rightarrow> int \<times> int \<Rightarrow> puzzle_state" where
  "toggleOffset_app column row s = (\<lambda>(dx, dy).
     let ident = showInt (column + dx) @ ''_'' @ showInt (row + dy);
         lastValue = truthy s ident
     in s(ident \<mapsto> \<not> lastValue))"

definition applyAffectedCoordinatesToState_app ::
  "(int \<times> int) list \<Rightarrow> puzzle_state \<Rightarrow> js_error + puzzle_state" where
  "applyAffectedCoordinatesToState_app affected state =
     (case affected of
        [] \<Rightarrow> Inl TypeError
      | (column, row) # rest \<Rightarrow>
          let nextState = foldl (toggleOffset_app column row) state rest
          in Inr nextState)"

definition flipLogic_app :: "puzzle_state \<Rightarrow> int \<Rightarrow> int \<Rightarrow> js_error + puzzle_state" where
  "flipLogic_app state column row =
     (let affected = getAffectedCoordinates_app column row
      in applyAffectedCoordinatesToState_app affected state)"

subsection \<open>The reducer\<close>

text \<open>
  An action is an object with a \<^verbatim>\<open>type\<close> and, for the flips, the integer \<^verbatim>\<open>column\<close>
  and \<^verbatim>\<open>row\<close> of the clicked cell descriptor; the handler of \<^verbatim>\<open>RESET_PUZZLE\<close> reads
  neither.
\<close>

record action =
  action_type :: string
  action_column :: int
  action_row :: int

text \<open>What a call of the reducer can return: a state, or the text a built-in produced.\<close>

datatype js_value = StateV puzzle_state | StringV string

type_synonym handler = "puzzle_state \<Rightarrow> action \<Rightarrow> js_error + js_value"

text \<open>
  \<^verbatim>\<open>puzzleReducerActionHandlers\<close> is an object literal, so
  \<^verbatim>\<open>puzzleReducerActionHandlers[action.type]\<close> finds the properties it inherits from
  \<^verbatim>\<open>Object.prototype\<close> as well as its own. The inherited value is truthy for each of
  the names below, and the reducer calls it as \<^verbatim>\<open>handler(state, action)\<close>, with no
  receiver. By the language standard \<^verbatim>\<open>Object(state)\<close> returns the object
  \<^verbatim>\<open>state\<close>, \<^verbatim>\<open>Object.prototype.toString\<close> without a receiver returns
  \<^verbatim>\<open>"[object Undefined]"\<close>, the other methods convert the missing receiver to an
  object and throw a TypeError, and under \<^verbatim>\<open>__proto__\<close> sits the prototype object
  itself, which is not callable.
\<close>

definition objectPrototype :: "string \<Rightarrow> handler option" where
  "objectPrototype key =
     (if key = ''constructor'' then Some (\<lambda>state action. Inr (StateV state))
      else if key = ''toString'' then Some (\<lambda>state action. Inr (StringV ''[object Undefined]''))
      else if key \<in> set [''toLocaleString'', ''valueOf'', ''hasOwnProperty'',
                ''isPrototypeOf'', ''propertyIsEnumerable'', ''__defineGetter__'',
                ''__defineSetter__'', ''__lookupGetter__'', ''__lookupSetter__'', ''__proto__'']
        then Some (\<lambda>state action. Inl TypeError)
      else None)"

definition liftState :: "js_error + puzzle_state \<Rightarrow> js_error + js_value" where
  "liftState r = (case r of Inl e \<Rightarrow> Inl e | Inr s \<Rightarrow> Inr (StateV s))"

definition puzzleReducerActionHandlers_p000 :: "string \<Rightarrow> handler option" where
  "puzzleReducerActionHandlers_p000 key =
     (if key = ''RESET_PUZZLE'' then Some (\<lambda>state action. Inr (StateV Map.empty))
      else if key = ''FLIP'' then
        Some (\<lambda>state action. liftState (flipLogic state (action_column action) (action_row action)))
      else if key = ''FLIP_SINGLE'' then
        Some (\<lambda>state action.
          let column = action_column action; row = action_row action
          in liftState (applyAffectedCoordinatesToState [(column, row), (0, 0)] state))
      else objectPrototype key)"

definition puzzleReducer_p000 :: "puzzle_state \<Rightarrow> action \<Rightarrow> js_error + js_value" where
  "puzzleReducer_p000 state action =
     (let handler = puzzleReducerActionHandlers_p000 (action_type action)
      in case handler of
           Some h \<Rightarrow> h state action
         | None \<Rightarrow> Inr (StateV state))"

definition puzzleReducerActionHandlers_p001 :: "string \<Rightarrow> handler option" where
  "puzzleReducerActionHandlers_p001 key =
     (if key = ''RESET_PUZZLE'' then Some (\<lambda>state action. Inr (StateV Map.empty))
      else if key = ''FLIP'' then
        Some (\<lambda>state action. liftState (flipLogic state (action_column action) (action_row action)))
      else objectPrototype key)"

definition puzzleReducer_p001 :: "puzzle_state \<Rightarrow> action \<Rightarrow> js_error + js_value" where
  "puzzleReducer_p001 state action =
     (let handler = puzzleReducerActionHandlers_p001 (action_type action)
      in case handler of
           Some h \<Rightarrow> h state action
         | None \<Rightarrow> Inr (StateV state))"

definition puzzleReducerActionHandlers_app :: "string \<Rightarrow> handler option" where
  "puzzleReducerActionHandlers_app key =
     (if key = ''RESET_PUZZLE'' then Some (\<lambda>state action. Inr (StateV Map.empty))
      else if key = ''FLIP'' then
        Some (\<lambda>state action.
          liftState (flipLogic_app state (action_column action) (action_row action)))
      else objectPrototype key)"

definition puzzleReducer_app :: "puzzle_state \<Rightarrow> action \<Rightarrow> js_error + js_value" where
  "puzzleReducer_app state action =
     (let handler = puzzleReducerActionHandlers_app (action_type action)
      in case handler of
           Some h \<Rightarrow> h state action
         | None \<Rightarrow> Inr (StateV state))"

subsection \<open>The 5x5 files: cell descriptors and the win check\<close>

text \<open>
  The descriptor without its geometry (\<^verbatim>\<open>x\<close>, \<^verbatim>\<open>y\<close>, \<^verbatim>\<open>width\<close>, \<^verbatim>\<open>height\<close>), which
  is floating-point arithmetic on the canvas size and is read by the renderer only.
\<close>

record cell =
  cell_id :: string
  cell_column :: int
  cell_row :: int
  cell_color :: string
  cell_lit :: bool

definition calculatePuzzleCellsFromState :: "puzzle_state \<Rightarrow> cell list" where
  "calculatePuzzleCellsFromState state =
     map (\<lambda>i. case getColumnRowFromIndex i of (column, row) \<Rightarrow>
            let ident = getPuzzleCellIdFromCooordinate column row
            in \<lparr> cell_id = ident, cell_column = column, cell_row = row,
                 cell_color = (if truthy state ident then ''seagreen'' else ''black''),
                 cell_lit = truthy state ident \<rparr>) [0..<numCells]"

text \<open>
  The effect of \<^verbatim>\<open>PuzzleView\<close>: \<^verbatim>\<open>numLights\<close> counts the descriptors with \<^verbatim>\<open>lit\<close>, and
  the puzzle is marked cleared when the count is \<^verbatim>\<open>numCells\<close>.
\<close>

definition numLights :: "cell list \<Rightarrow> nat" where
  "numLights cells = length (filter cell_lit cells)"

definition winDetected :: "puzzle_state \<Rightarrow> bool" where
  "winDetected state = (numLights (calculatePuzzleCellsFromState state) = numCells)"

subsection \<open>Notions used to state and prove the properties\<close>

text \<open>
  None of the definitions of this subsection is a function of the source. The first
  two describe a step of the \<^verbatim>\<open>reduce\<close> by the key it writes, and the result of
  toggling a set of keys at once.
\<close>

definition toggleKey :: "puzzle_state \<Rightarrow> string \<Rightarrow> puzzle_state" where
  "toggleKey s k = s(k \<mapsto> \<not> truthy s k)"

definition toggled :: "string set \<Rightarrow> puzzle_state \<Rightarrow> puzzle_state" where
  "toggled K s = (\<lambda>k. if k \<in> K then Some (\<not> truthy s k) else s k)"

text \<open>
  The neighbour set as the specification words it: the clicked cell and its four
  orthogonal neighbours, without those that fall outside the grid.
\<close>

definition neighbourCells :: "nat \<Rightarrow> nat \<Rightarrow> int \<Rightarrow> int \<Rightarrow> (int \<times> int) list" where
  "neighbourCells cols rows column row =
     filter (\<lambda>(x, y). 0 \<le> x \<and> x < int cols \<and> 0 \<le> y \<and> y < int rows)
       [(column, row), (column, row - 1), (column, row + 1), (column - 1, row), (column + 1, row)]"

definition cellId :: "int \<times> int \<Rightarrow> string" where
  "cellId = (\<lambda>(x, y). getPuzzleCellIdFromCooordinate x y)"

text \<open>The cells that the \<^verbatim>\<open>reduce\<close> of the 5x5 files visits, in its order.\<close>

definition toggledCells_on :: "nat \<Rightarrow> nat \<Rightarrow> int \<Rightarrow> int \<Rightarrow> (int \<times> int) list" where
  "toggledCells_on cols rows column row =
     map (\<lambda>(dx, dy). (column + dx, row + dy))
       (filter (isOutOfBounds_on cols rows column row) (tl (getAffectedCoordinates column row)))"

text \<open>
  The check vector of the state that one click makes of the empty state, and the sum
  whose parity \<open>compareCheckTableAgainstMagicValueTable\<close> computes.
\<close>

definition clickPattern :: "int \<Rightarrow> int \<Rightarrow> nat list" where
  "clickPattern column row =
     map (\<lambda>i. if getColumnRowFromIndex i \<in> set (neighbourCells colCount rowCount column row)
               then 1 else 0) [0..<numCells]"

definition dot :: "nat list \<Rightarrow> nat list \<Rightarrow> nat" where
  "dot xs ys = (\<Sum>i<numCells. xs ! i * ys ! i)"

text \<open>The all-lit state: every identifier of the 5x5 grid is a key, and holds \<^verbatim>\<open>true\<close>.\<close>

definition allLit :: puzzle_state where
  "allLit = map_of (map (\<lambda>i. (cellId (getColumnRowFromIndex i), True)) [0..<numCells])"

text \<open>The cells that the \<^verbatim>\<open>reduce\<close> of \<^verbatim>\<open>src/App.js\<close> visits, in its order.\<close>

definition toggledCells_app :: "int \<Rightarrow> int \<Rightarrow> (int \<times> int) list" where
  "toggledCells_app column row =
     map (\<lambda>(dx, dy). (column + dx, row + dy)) (tl (getAffectedCoordinates_app column row))"

text \<open>Two clicks on the same cell, the second on the state the first returned.\<close>

definition flipTwice :: "puzzle_state \<Rightarrow> int \<Rightarrow> int \<Rightarrow> js_error + puzzle_state" where
  "flipTwice state column row =
     (case flipLogic state column row of Inl e \<Rightarrow> Inl e | Inr s \<Rightarrow> flipLogic s column row)"

definition flipTwice_app :: "puzzle_state \<Rightarrow> int \<Rightarrow> int \<Rightarrow> js_error + puzzle_state" where
  "flipTwice_app state column row =
     (case flipLogic_app state column row of Inl e \<Rightarrow> Inl e | Inr s \<Rightarrow> flipLogic_app s column row)"

text \<open>The state \<^verbatim>\<open>{}\<close> that \<^verbatim>\<open>useReducer\<close> starts from and \<^verbatim>\<open>RESET_PUZZLE\<close> returns.\<close>

definition emptyState :: puzzle_state where
  "emptyState = Map.empty"

text \<open>
  Equality of puzzle states as the data model of the specification has it: a missing key
  is equivalent to unlit, so two states are the same puzzle state when every identifier
  reads the same in both (\<^verbatim>\<open>Boolean(s[id])\<close> agrees).
\<close>

definition sameState :: "puzzle_state \<Rightarrow> puzzle_state \<Rightarrow> bool" where
  "sameState s t = (truthy s = truthy t)"

subsection \<open>The transition on a store of objects\<close>

text \<open>
  The transition once more, on a store of objects, to state what a click does to the
  object it is given. A store is the list of the objects created so far and an address
  is an index into it. The code never assigns to a property of a state object: its only
  operation on objects is the spread \<^verbatim>\<open>{ ...s }\<close>, which creates an object, so \<open>alloc\<close>
  is the only operation on the store. An address held by the program always points to
  an object, so reads are at indices below the length of the store.
\<close>

type_synonym address = nat

type_synonym store = "puzzle_state list"

definition alloc :: "store \<Rightarrow> puzzle_state \<Rightarrow> address \<times> store" where
  "alloc h obj = (length h, h @ [obj])"

definition toggleOffset_st :: "int \<Rightarrow> int \<Rightarrow> address \<times> store \<Rightarrow> int \<times> int \<Rightarrow> address \<times> store" where
  "toggleOffset_st column row = (\<lambda>(s, h) (dx, dy).
     let ident = getPuzzleCellIdFromCooordinate (column + dx) (row + dy);
         lastValue = truthy (h ! s) ident
     in alloc h ((h ! s)(ident \<mapsto> \<not> lastValue)))"

definition applyAffectedCoordinatesToState_st ::
  "(int \<times> int) list \<Rightarrow> address \<Rightarrow> store \<Rightarrow> js_error + address \<times> store" where
  "applyAffectedCoordinatesToState_st affected state h =
     (case affected of
        [] \<Rightarrow> Inl TypeError
      | (column, row) # rest \<Rightarrow>
          let outOfBounds = isOutOfBounds column row;
              nextState = foldl (toggleOffset_st column row) (alloc h (h ! state))
                            (filter outOfBounds rest)
          in Inr nextState)"

definition flipLogic_st :: "address \<Rightarrow> int \<Rightarrow> int \<Rightarrow> store \<Rightarrow> js_error + address \<times> store" where
  "flipLogic_st state column row h =
     (let affected = getAffectedCoordinates column row
      in applyAffectedCoordinatesToState_st affected state h)"

text \<open>
  The same for \<^verbatim>\<open>src/App.js\<close>, which has no filter; its identifier template is the text
  of \<open>getPuzzleCellIdFromCooordinate\<close>.
\<close>

definition applyAffectedCoordinatesToState_app_st ::
  "(int \<times> int) list \<Rightarrow> address \<Rightarrow> store \<Rightarrow> js_error + address \<times> store" where
  "applyAffectedCoordinatesToState_app_st affected state h =
     (case affected of
        [] \<Rightarrow> Inl TypeError
      | (column, row) # rest \<Rightarrow>
          let nextState = foldl (toggleOffset_st column row) (alloc h (h ! state)) rest
          in Inr nextState)"

definition flipLogic_app_st :: "address \<Rightarrow> int \<Rightarrow> int \<Rightarrow> store \<Rightarrow> js_error + address \<times> store" where
  "flipLogic_app_st state column row h =
     (let affected = getAffectedCoordinates_app column row
      in applyAffectedCoordinatesToState_app_st affected state h)"

section \<open>Properties\<close>

subsection \<open>Helper lemmas\<close>

lemma digitChar_inj: "a < 10 \<Longrightarrow> b < 10 \<Longrightarrow> (digitChar a = digitChar b) = (a = b)"
proof -
  assume "a < 10" "b < 10"
  then have "a \<in> {0,1,2,3,4,5,6,7,8,9}" "b \<in> {0,1,2,3,4,5,6,7,8,9}" by auto
  then show ?thesis by (auto simp: digitChar_def)
qed

lemma showInt_small: "0 \<le> i \<Longrightarrow> i < 10 \<Longrightarrow> showInt i = [digitChar (nat i)]"
  by (simp add: showInt_def showNat.simps)

lemma cellId_small:
  "0 \<le> x \<Longrightarrow> x < 10 \<Longrightarrow> 0 \<le> y \<Longrightarrow> y < 10 \<Longrightarrow>
   getPuzzleCellIdFromCooordinate x y = [digitChar (nat x), CHR ''_'', digitChar (nat y)]"
  by (simp add: getPuzzleCellIdFromCooordinate_def showInt_small)

lemma cellId_inj:
  assumes "0 \<le> x" "x < 10" "0 \<le> y" "y < 10" "0 \<le> x'" "x' < 10" "0 \<le> y'" "y' < 10"
  shows "(getPuzzleCellIdFromCooordinate x y = getPuzzleCellIdFromCooordinate x' y') = (x = x' \<and> y = y')"
  using assms by (auto simp add: cellId_small digitChar_inj)

lemma foldl_toggleKey:
  "distinct ks \<Longrightarrow> foldl toggleKey s ks = toggled (set ks) s"
proof (induction ks arbitrary: s)
  case Nil
  show ?case by (simp add: toggled_def)
next
  case (Cons k ks)
  then have "foldl toggleKey (toggleKey s k) ks = toggled (set ks) (toggleKey s k)" by simp
  moreover have "toggled (set ks) (toggleKey s k) = toggled (set (k # ks)) s"
    using Cons.prems by (auto simp: toggled_def toggleKey_def truthy_def fun_eq_iff)
  ultimately show ?case by simp
qed

lemma foldl_toggleOffset:
  "foldl (toggleOffset column row) s offs =
   foldl toggleKey s (map (\<lambda>(dx, dy). getPuzzleCellIdFromCooordinate (column + dx) (row + dy)) offs)"
  by (induction offs arbitrary: s) (auto simp: toggleOffset_def toggleKey_def Let_def)

lemma fold_dotStep:
  "n \<le> length check \<Longrightarrow> n \<le> length tbl \<Longrightarrow>
   fold (dotStep check tbl) [0..<n] (Some 0) = Some ((\<Sum>i<n. check ! i * tbl ! i) mod 2)"
proof (induction n)
  case 0
  show ?case by simp
next
  case (Suc n)
  then show ?case by (simp add: dotStep_def js_nth_def mod_add_left_eq)
qed

lemma toggledCells_on_eq:
  "0 \<le> column \<Longrightarrow> column < int cols \<Longrightarrow> 0 \<le> row \<Longrightarrow> row < int rows \<Longrightarrow>
   toggledCells_on cols rows column row = neighbourCells cols rows column row"
  by (simp add: toggledCells_on_def neighbourCells_def getAffectedCoordinates_def isOutOfBounds_on_def)

lemma neighbourCells_distinct: "distinct (neighbourCells cols rows column row)"
  by (simp add: neighbourCells_def)

lemma neighbourCells_inGrid:
  "(x, y) \<in> set (neighbourCells cols rows column row) \<Longrightarrow> 0 \<le> x \<and> x < int cols \<and> 0 \<le> y \<and> y < int rows"
  unfolding neighbourCells_def set_filter by simp

lemma cellId_inj_on:
  assumes "cols \<le> 10" "rows \<le> 10"
  shows "inj_on cellId (set (neighbourCells cols rows column row))"
proof (rule inj_onI)
  fix p q
  assume p: "p \<in> set (neighbourCells cols rows column row)"
    and q: "q \<in> set (neighbourCells cols rows column row)"
    and eq: "cellId p = cellId q"
  obtain x y where [simp]: "p = (x, y)" by (cases p)
  obtain x' y' where [simp]: "q = (x', y')" by (cases q)
  from p assms have "0 \<le> x \<and> x < 10 \<and> 0 \<le> y \<and> y < 10"
    using neighbourCells_inGrid [of x y cols rows column row] by simp
  moreover from q assms have "0 \<le> x' \<and> x' < 10 \<and> 0 \<le> y' \<and> y' < 10"
    using neighbourCells_inGrid [of x' y' cols rows column row] by simp
  ultimately show "p = q" using eq by (simp add: cellId_def cellId_inj)
qed

lemma flipLogic_on_toggled:
  assumes "cols \<le> 10" "rows \<le> 10"
    and "0 \<le> column" "column < int cols" "0 \<le> row" "row < int rows"
  shows "flipLogic_on cols rows s column row =
         Inr (toggled (cellId ` set (neighbourCells cols rows column row)) s)"
proof -
  have ids: "map (\<lambda>(dx, dy). getPuzzleCellIdFromCooordinate (column + dx) (row + dy))
               (filter (isOutOfBounds_on cols rows column row) (tl (getAffectedCoordinates column row)))
             = map cellId (toggledCells_on cols rows column row)"
    by (simp add: toggledCells_on_def cellId_def comp_def case_prod_unfold)
  have "distinct (map cellId (neighbourCells cols rows column row))"
    using assms(1,2) by (simp add: distinct_map neighbourCells_distinct cellId_inj_on)
  then have "foldl toggleKey s (map cellId (neighbourCells cols rows column row)) =
             toggled (cellId ` set (neighbourCells cols rows column row)) s"
    using foldl_toggleKey [of "map cellId (neighbourCells cols rows column row)" s] by simp
  moreover have "flipLogic_on cols rows s column row =
     Inr (foldl toggleKey s (map cellId (toggledCells_on cols rows column row)))"
    unfolding ids [symmetric]
    by (simp add: flipLogic_on_def applyAffectedCoordinatesToState_on_def
        getAffectedCoordinates_def foldl_toggleOffset)
  ultimately show ?thesis using assms(3-6) by (simp add: toggledCells_on_eq)
qed

lemma numCells_25: "numCells = 25"
  by (simp add: numCells_def rowCount_def colCount_def)

lemma toString2_chars: "set (toString2 n) \<subseteq> {CHR ''0'', CHR ''1''}"
proof (induction n rule: toString2.induct)
  case (1 n)
  have d: "digitChar (n mod 2) \<in> {CHR ''0'', CHR ''1''}"
  proof -
    have "n mod 2 = 0 \<or> n mod 2 = 1" by auto
    then show ?thesis by (auto simp: digitChar_def)
  qed
  show ?case
  proof (cases "n < 2")
    case True
    then have "toString2 n = [digitChar (n mod 2)]"
      by (subst toString2.simps) simp
    with d show ?thesis by simp
  next
    case False
    then have "toString2 n = toString2 (n div 2) @ [digitChar (n mod 2)]"
      by (subst toString2.simps) simp
    with False "1.IH" d show ?thesis by simp
  qed
qed

lemma toString2_first: "toString2 0x15a82b5 = ''1010110101000001010110101''"
  by (simp add: toString2.simps digitChar_def)

lemma toString2_second: "toString2 0x1b06c1b = ''1101100000110110000011011''"
  by (simp add: toString2.simps digitChar_def)

lemma decode_first:
  "decodeMagicValueToTable 0x15a82b5 =
     [1,0,1,0,1, 1,0,1,0,1, 0,0,0,0,0, 1,0,1,0,1, 1,0,1,0,1]"
  by (simp add: decodeMagicValueToTable_def toString2_first Number_char_def)

lemma decode_second:
  "decodeMagicValueToTable 0x1b06c1b =
     [1,1,0,1,1, 0,0,0,0,0, 1,1,0,1,1, 0,0,0,0,0, 1,1,0,1,1]"
  by (simp add: decodeMagicValueToTable_def toString2_second Number_char_def)

lemma decode0: "magicValues ! 0 = [1,0,1,0,1, 1,0,1,0,1, 0,0,0,0,0, 1,0,1,0,1, 1,0,1,0,1]"
  by (simp add: magicValues_def decode_first)

lemma decode1: "magicValues ! 1 = [1,1,0,1,1, 0,0,0,0,0, 1,1,0,1,1, 0,0,0,0,0, 1,1,0,1,1]"
  by (simp add: magicValues_def decode_second)

lemma compare_even:
  "length check = numCells \<Longrightarrow> length tbl = numCells \<Longrightarrow>
   compareCheckTableAgainstMagicValueTable check tbl = even (dot check tbl)"
  by (simp add: compareCheckTableAgainstMagicValueTable_def fold_dotStep dot_def even_iff_mod_2_eq_zero)

lemma getColumnRowFromIndex_inGrid:
  "i < numCells \<Longrightarrow> getColumnRowFromIndex i = (x, y) \<Longrightarrow>
   0 \<le> x \<and> x < int colCount \<and> 0 \<le> y \<and> y < int rowCount"
  by (auto simp: getColumnRowFromIndex_def numCells_def colCount_def rowCount_def)

lemma cellId_mem_neighbour:
  assumes "i < numCells"
  shows "(cellId (getColumnRowFromIndex i) \<in> cellId ` set (neighbourCells colCount rowCount column row))
         = (getColumnRowFromIndex i \<in> set (neighbourCells colCount rowCount column row))"
proof
  assume "cellId (getColumnRowFromIndex i) \<in> cellId ` set (neighbourCells colCount rowCount column row)"
  then obtain q where q: "q \<in> set (neighbourCells colCount rowCount column row)"
    and eq: "cellId (getColumnRowFromIndex i) = cellId q" by auto
  obtain x y where xy: "getColumnRowFromIndex i = (x, y)" by (cases "getColumnRowFromIndex i")
  obtain x' y' where q': "q = (x', y')" by (cases q)
  from getColumnRowFromIndex_inGrid [OF assms xy]
  have a: "0 \<le> x \<and> x < 10 \<and> 0 \<le> y \<and> y < 10" by (simp add: colCount_def rowCount_def)
  from q q' neighbourCells_inGrid [of x' y' colCount rowCount column row]
  have b: "0 \<le> x' \<and> x' < 10 \<and> 0 \<le> y' \<and> y' < 10" by (simp add: colCount_def rowCount_def)
  from eq a b have "(x, y) = (x', y')" by (simp add: xy q' cellId_def cellId_inj)
  with q xy q' show "getColumnRowFromIndex i \<in> set (neighbourCells colCount rowCount column row)" by simp
next
  assume "getColumnRowFromIndex i \<in> set (neighbourCells colCount rowCount column row)"
  then show "cellId (getColumnRowFromIndex i) \<in> cellId ` set (neighbourCells colCount rowCount column row)"
    by (rule imageI)
qed

lemma checkTable_p000_nth:
  "i < numCells \<Longrightarrow>
   puzzleStateToCheckTable_p000 s ! i = (if truthy s (cellId (getColumnRowFromIndex i)) then 1 else 0)"
  by (simp add: puzzleStateToCheckTable_p000_def cellId_def case_prod_unfold)

lemma checkTable_p001_nth:
  "i < numCells \<Longrightarrow>
   puzzleStateToCheckTable_p001 s ! i = (if truthy s (cellId (getColumnRowFromIndex i)) then 0 else 1)"
  by (simp add: puzzleStateToCheckTable_p001_def cellId_def case_prod_unfold)

lemma truthy_toggled: "truthy (toggled K s) k = (if k \<in> K then \<not> truthy s k else truthy s k)"
  by (simp add: toggled_def truthy_def)

lemma dot_toggled:
  "even (dot (puzzleStateToCheckTable_p000
            (toggled (cellId ` set (neighbourCells colCount rowCount column row)) s)) tbl)
   = even (dot (puzzleStateToCheckTable_p000 s) tbl + dot (clickPattern column row) tbl)"
proof -
  let ?s' = "toggled (cellId ` set (neighbourCells colCount rowCount column row)) s"
  have pt: "puzzleStateToCheckTable_p000 ?s' ! i * tbl ! i mod 2 =
            (puzzleStateToCheckTable_p000 s ! i * tbl ! i + clickPattern column row ! i * tbl ! i) mod 2"
    if "i < numCells" for i
    using that
    by (simp add: checkTable_p000_nth truthy_toggled cellId_mem_neighbour clickPattern_def)
  have "dot (puzzleStateToCheckTable_p000 ?s') tbl mod 2 =
        (\<Sum>i<numCells. puzzleStateToCheckTable_p000 ?s' ! i * tbl ! i mod 2) mod 2"
    by (simp add: dot_def mod_sum_eq)
  also have "\<dots> = (\<Sum>i<numCells. (puzzleStateToCheckTable_p000 s ! i * tbl ! i
                       + clickPattern column row ! i * tbl ! i) mod 2) mod 2"
    using pt by simp
  also have "\<dots> = (dot (puzzleStateToCheckTable_p000 s) tbl + dot (clickPattern column row) tbl) mod 2"
    by (simp add: dot_def mod_sum_eq sum.distrib)
  finally show ?thesis by (simp add: even_iff_mod_2_eq_zero)
qed

lemma length_checkTable_p000: "length (puzzleStateToCheckTable_p000 s) = numCells"
  by (simp add: puzzleStateToCheckTable_p000_def)

lemma length_magicValues: "length (magicValues ! 0) = numCells" "length (magicValues ! 1) = numCells"
  by (simp_all add: decode0 decode1 numCells_25 del: One_nat_def)

lemma isPuzzleSolvable_p000_even:
  "isPuzzleSolvable_p000 s = (even (dot (puzzleStateToCheckTable_p000 s) (magicValues ! 0)) \<and>
                              even (dot (puzzleStateToCheckTable_p000 s) (magicValues ! 1)))"
  by (simp add: isPuzzleSolvable_p000_def Let_def compare_even length_checkTable_p000 length_magicValues
      del: One_nat_def)

lemma flipLogic_toggled:
  assumes "0 \<le> column" "column < int colCount" "0 \<le> row" "row < int rowCount"
  shows "flipLogic s column row = Inr (toggled (cellId ` set (neighbourCells colCount rowCount column row)) s)"
  unfolding flipLogic_def using assms
  by (intro flipLogic_on_toggled) (simp_all add: colCount_def rowCount_def)

lemma clickPattern_orthogonal_all:
  "list_all (\<lambda>(c, r).
       even (dot (clickPattern c r) [1,0,1,0,1, 1,0,1,0,1, 0,0,0,0,0, 1,0,1,0,1, 1,0,1,0,1]) \<and>
       even (dot (clickPattern c r) [1,1,0,1,1, 0,0,0,0,0, 1,1,0,1,1, 0,0,0,0,0, 1,1,0,1,1]))
     (List.product [0, 1, 2, 3, 4] [0, 1, 2, 3, 4])"
  by code_simp

lemma clickPattern_orthogonal:
  assumes "0 \<le> column" "column < int colCount" "0 \<le> row" "row < int rowCount"
  shows "even (dot (clickPattern column row) (magicValues ! 0))"
    and "even (dot (clickPattern column row) (magicValues ! 1))"
proof -
  from assms have "column \<in> set [0, 1, 2, 3, 4]" "row \<in> set [0, 1, 2, 3, 4]"
    by (auto simp: colCount_def rowCount_def)
  then have "(column, row) \<in> set (List.product [0, 1, 2, 3, 4] [0, 1, 2, 3, 4])"
    unfolding set_product by (rule SigmaI)
  with clickPattern_orthogonal_all
  show "even (dot (clickPattern column row) (magicValues ! 0))"
    and "even (dot (clickPattern column row) (magicValues ! 1))"
    unfolding list_all_iff decode0 decode1 by blast+
qed

subsection \<open>Solvability is preserved by a click\<close>

text \<open>
  Claim C1. On the 5x5 grid, if \<open>isPuzzleSolvable\<close> (the variant of \<^verbatim>\<open>part_000\<close>, whose
  check vector counts lit cells) accepts a state, then for every click inside the grid
  \<open>flipLogic\<close> returns a state, and \<open>isPuzzleSolvable\<close> accepts that state too.
\<close>

theorem flipLogic_preserves_solvable:
  assumes "isPuzzleSolvable_p000 S"
    and "0 \<le> column" "column < int colCount" "0 \<le> row" "row < int rowCount"
  shows "\<exists>S'. flipLogic S column row = Inr S' \<and> isPuzzleSolvable_p000 S'"
proof -
  let ?S' = "toggled (cellId ` set (neighbourCells colCount rowCount column row)) S"
  have "flipLogic S column row = Inr ?S'" using assms(2-5) by (rule flipLogic_toggled)
  moreover have "isPuzzleSolvable_p000 ?S'"
    using assms(1) clickPattern_orthogonal [OF assms(2-5)]
    by (simp add: isPuzzleSolvable_p000_even dot_toggled)
  ultimately show ?thesis by blast
qed

theorem flipLogic_preserves_solvable_witness:
  "isPuzzleSolvable_p000 Map.empty \<and> (0::int) \<le> 2 \<and> (2::int) < int colCount \<and> (2::int) < int rowCount \<and>
   (\<exists>S'. flipLogic Map.empty 2 2 = Inr S' \<and> isPuzzleSolvable_p000 S')"
proof -
  have e: "isPuzzleSolvable_p000 Map.empty"
    unfolding isPuzzleSolvable_p000_even decode0 decode1 by code_simp
  have b: "(0::int) \<le> 2" "(2::int) < int colCount" "(2::int) < int rowCount"
    by (simp_all add: colCount_def rowCount_def)
  from flipLogic_preserves_solvable [OF e b(1) b(2) b(1) b(3)] e b show ?thesis by simp
qed

lemma upt_numCells: "[0..<numCells] = [0,1,2,3,4,5,6,7,8,9,10,11,12,13,14,15,16,17,18,19,20,21,22,23,24]"
  unfolding numCells_25 by code_simp

subsection \<open>The parity-check tables\<close>

text \<open>
  Claim C6. \<open>decodeMagicValueToTable\<close> applied to each of the two magic constants
  \<^verbatim>\<open>0x15a82b5\<close> and \<^verbatim>\<open>0x1b06c1b\<close> yields a list of length \<open>numCells\<close> = 25 whose every
  entry is 0 or 1 and whose entry at index \<open>i\<close> is bit \<open>24 - i\<close> of the constant (the
  binary digits, most significant first); \<open>magicValues\<close> holds the two tables.
\<close>

theorem decodeMagicValueToTable_bits:
  "decodeMagicValueToTable 0x15a82b5 =
     map (\<lambda>i. if bit (0x15a82b5 :: nat) (24 - i) then 1 else 0) [0..<numCells] \<and>
   decodeMagicValueToTable 0x1b06c1b =
     map (\<lambda>i. if bit (0x1b06c1b :: nat) (24 - i) then 1 else 0) [0..<numCells] \<and>
   length (decodeMagicValueToTable 0x15a82b5) = numCells \<and>
   length (decodeMagicValueToTable 0x1b06c1b) = numCells \<and>
   set (decodeMagicValueToTable 0x15a82b5) \<subseteq> {0, 1} \<and>
   set (decodeMagicValueToTable 0x1b06c1b) \<subseteq> {0, 1} \<and>
   magicValues = [decodeMagicValueToTable 0x15a82b5, decodeMagicValueToTable 0x1b06c1b]"
  unfolding decode_first decode_second upt_numCells
  by (simp add: bit_iff_odd numCells_25 magicValues_def decode_first decode_second)

lemma length_checkTable_p001: "length (puzzleStateToCheckTable_p001 s) = numCells"
  by (simp add: puzzleStateToCheckTable_p001_def)

lemma isPuzzleSolvable_p001_even:
  "isPuzzleSolvable_p001 s = (even (dot (puzzleStateToCheckTable_p001 s) (magicValues ! 0)) \<and>
                              even (dot (puzzleStateToCheckTable_p001 s) (magicValues ! 1)))"
  by (simp add: isPuzzleSolvable_p001_def Let_def compare_even length_checkTable_p001 length_magicValues
      del: One_nat_def)

subsection \<open>The solvability check on particular states\<close>

text \<open>
  Claim C4. \<open>isPuzzleSolvable\<close> returns true on the empty state (no keys, every cell
  unlit), in the variant whose check vector counts lit cells (\<^verbatim>\<open>part_000\<close>) and in the
  variant whose check vector counts unlit cells (\<^verbatim>\<open>part_001\<close>).
\<close>

theorem isPuzzleSolvable_empty: "isPuzzleSolvable_p000 Map.empty \<and> isPuzzleSolvable_p001 Map.empty"
  unfolding isPuzzleSolvable_p000_even isPuzzleSolvable_p001_even decode0 decode1 by code_simp

lemma sum_magic:
  "(\<Sum>i<numCells. (magicValues ! 0) ! i) = 12" "(\<Sum>i<numCells. (magicValues ! 1) ! i) = 12"
  unfolding decode0 decode1 by code_simp+

lemma dot_complement:
  "dot (puzzleStateToCheckTable_p001 s) tbl + dot (puzzleStateToCheckTable_p000 s) tbl
   = (\<Sum>i<numCells. tbl ! i)"
proof -
  have "puzzleStateToCheckTable_p001 s ! i * tbl ! i + puzzleStateToCheckTable_p000 s ! i * tbl ! i
        = tbl ! i" if "i < numCells" for i
    using that by (simp add: checkTable_p000_nth checkTable_p001_nth)
  then show ?thesis by (simp add: dot_def sum.distrib [symmetric])
qed

lemma even_dot_complement:
  assumes "even (\<Sum>i<numCells. tbl ! i)"
  shows "even (dot (puzzleStateToCheckTable_p001 s) tbl) = even (dot (puzzleStateToCheckTable_p000 s) tbl)"
proof -
  from assms have "even (dot (puzzleStateToCheckTable_p001 s) tbl + dot (puzzleStateToCheckTable_p000 s) tbl)"
    by (simp only: dot_complement)
  then show ?thesis by simp
qed

text \<open>
  Claim C9. On every state the two solvability checks agree: the one whose check vector
  is 1 where a cell is lit (\<^verbatim>\<open>part_000\<close>) and the one whose check vector is 1 where a
  cell is unlit (\<^verbatim>\<open>part_001\<close>), against the same two magic tables; and each decoded
  table holds an even number of 1 entries, which is why complementing the check vector
  changes neither dot product modulo 2.
\<close>

theorem isPuzzleSolvable_polarity:
  "isPuzzleSolvable_p000 s = isPuzzleSolvable_p001 s \<and>
   even (length (filter (\<lambda>b. b = 1) (magicValues ! 0))) \<and>
   even (length (filter (\<lambda>b. b = 1) (magicValues ! 1)))"
proof -
  have "isPuzzleSolvable_p000 s = isPuzzleSolvable_p001 s"
    unfolding isPuzzleSolvable_p000_even isPuzzleSolvable_p001_even
    by (simp add: even_dot_complement sum_magic del: One_nat_def)
  moreover have "even (length (filter (\<lambda>b. b = 1) (magicValues ! 0)))"
    unfolding decode0 by simp
  moreover have "even (length (filter (\<lambda>b. b = 1) (magicValues ! 1)))"
    unfolding decode1 by simp
  ultimately show ?thesis by simp
qed

text \<open>
  Claim C10. The all-lit state of the 5x5 grid, which maps every cell identifier of the
  grid to \<^verbatim>\<open>true\<close>, is accepted by \<open>isPuzzleSolvable\<close> in both polarity variants.
\<close>

theorem isPuzzleSolvable_allLit: "isPuzzleSolvable_p000 allLit \<and> isPuzzleSolvable_p001 allLit"
  unfolding isPuzzleSolvable_p000_even isPuzzleSolvable_p001_even decode0 decode1 by code_simp

subsection \<open>The win check\<close>

lemma length_filter_all: "(length (filter P xs) = length xs) = (\<forall>x\<in>set xs. P x)"
proof (induction xs)
  case Nil
  show ?case by simp
next
  case (Cons x xs)
  have "length (filter P xs) \<le> length xs" by (rule length_filter_le)
  then have "length (filter P xs) \<noteq> Suc (length xs)" by linarith
  with Cons show ?case by auto
qed

lemma winDetected_index:
  "winDetected state = (\<forall>i<numCells. truthy state (cellId (getColumnRowFromIndex i)))"
proof -
  have "winDetected state =
        (length (filter cell_lit (calculatePuzzleCellsFromState state)) =
         length (calculatePuzzleCellsFromState state))"
    by (simp add: winDetected_def numLights_def calculatePuzzleCellsFromState_def)
  also have "\<dots> = (\<forall>c\<in>set (calculatePuzzleCellsFromState state). cell_lit c)"
    by (rule length_filter_all)
  also have "\<dots> = (\<forall>i<numCells. truthy state (cellId (getColumnRowFromIndex i)))"
    by (auto simp: calculatePuzzleCellsFromState_def cellId_def case_prod_unfold Let_def)
  finally show ?thesis .
qed

lemma index_of_cell:
  assumes "0 \<le> x" "x < int colCount" "0 \<le> y" "y < int rowCount"
  shows "nat y * colCount + nat x < numCells"
    and "getColumnRowFromIndex (nat y * colCount + nat x) = (x, y)"
  using assms by (auto simp: getColumnRowFromIndex_def numCells_def colCount_def rowCount_def)

text \<open>
  Claim C7. For every state the win check succeeds exactly when every cell of the 5x5
  grid is lit: the number of descriptors of \<open>calculatePuzzleCellsFromState\<close> whose
  \<^verbatim>\<open>lit\<close> flag is set equals \<open>numCells\<close> if and only if \<^verbatim>\<open>state[id]\<close> is truthy for the
  identifier of every column and row inside the grid.
\<close>

theorem winDetected_iff:
  "winDetected state =
   (\<forall>column row. 0 \<le> column \<and> column < int colCount \<and> 0 \<le> row \<and> row < int rowCount
      \<longrightarrow> truthy state (getPuzzleCellIdFromCooordinate column row))"
proof
  assume w: "winDetected state"
  show "\<forall>column row. 0 \<le> column \<and> column < int colCount \<and> 0 \<le> row \<and> row < int rowCount
      \<longrightarrow> truthy state (getPuzzleCellIdFromCooordinate column row)"
  proof (intro allI impI)
    fix column row :: int
    assume b: "0 \<le> column \<and> column < int colCount \<and> 0 \<le> row \<and> row < int rowCount"
    then have "nat row * colCount + nat column < numCells"
      and "getColumnRowFromIndex (nat row * colCount + nat column) = (column, row)"
      using index_of_cell [of column row] by simp_all
    with w show "truthy state (getPuzzleCellIdFromCooordinate column row)"
      unfolding winDetected_index cellId_def by fastforce
  qed
next
  assume a: "\<forall>column row. 0 \<le> column \<and> column < int colCount \<and> 0 \<le> row \<and> row < int rowCount
      \<longrightarrow> truthy state (getPuzzleCellIdFromCooordinate column row)"
  show "winDetected state"
    unfolding winDetected_index
  proof (intro allI impI)
    fix i assume i: "i < numCells"
    obtain x y where xy: "getColumnRowFromIndex i = (x, y)" by (cases "getColumnRowFromIndex i")
    from getColumnRowFromIndex_inGrid [OF i xy] a
    show "truthy state (cellId (getColumnRowFromIndex i))" by (simp add: xy cellId_def)
  qed
qed

lemma map_of_const:
  "k \<in> f ` set xs \<Longrightarrow> map_of (map (\<lambda>i. (f i, v)) xs) k = Some v"
  by (induction xs) auto

lemma allLit_inGrid:
  assumes "0 \<le> x" "x < int colCount" "0 \<le> y" "y < int rowCount"
  shows "allLit (getPuzzleCellIdFromCooordinate x y) = Some True"
proof -
  from index_of_cell [OF assms]
  have "getPuzzleCellIdFromCooordinate x y \<in> (\<lambda>i. cellId (getColumnRowFromIndex i)) ` set [0..<numCells]"
    by (auto simp: cellId_def image_iff intro!: bexI [of _ "nat y * colCount + nat x"])
  then show ?thesis unfolding allLit_def by (rule map_of_const)
qed

theorem winDetected_iff_witness:
  "winDetected allLit \<and> \<not> winDetected Map.empty \<and>
   \<not> truthy Map.empty (getPuzzleCellIdFromCooordinate 0 0)"
proof -
  have "winDetected allLit"
    using winDetected_iff [of allLit] by (simp add: allLit_inGrid truthy_def)
  moreover have "\<not> truthy Map.empty (getPuzzleCellIdFromCooordinate 0 0)"
    by (simp add: truthy_def)
  then have "\<not> winDetected Map.empty"
    using winDetected_iff [of Map.empty] by (auto simp: colCount_def rowCount_def)
  ultimately show ?thesis by (simp add: truthy_def)
qed

subsection \<open>The two neighbour policies\<close>

lemma toggleOffset_app_eq: "toggleOffset_app = toggleOffset"
  by (simp add: fun_eq_iff toggleOffset_app_def toggleOffset_def getPuzzleCellIdFromCooordinate_def)

lemma app_range:
  assumes "0 \<le> column" "column < int colCount_app"
  shows "column = 0 \<or> column = 1 \<or> column = 2 \<or> column = 3"
  using assms by (auto simp: colCount_app_def)

lemma toggledCells_app_distinct:
  assumes "0 \<le> column" "column < int colCount_app" "0 \<le> row" "row < int rowCount_app"
  shows "distinct (toggledCells_app column row)"
  using app_range [OF assms(1,2)] app_range [of row] assms(3,4)
  by (auto simp: toggledCells_app_def getAffectedCoordinates_app_def colCount_app_def rowCount_app_def)

lemma toggledCells_app_set:
  assumes "0 \<le> column" "column < int colCount_app" "0 \<le> row" "row < int rowCount_app"
  shows "set (toggledCells_app column row) = set (neighbourCells colCount_app rowCount_app column row)"
  using app_range [OF assms(1,2)] app_range [of row] assms(3,4)
  by (auto simp: toggledCells_app_def getAffectedCoordinates_app_def neighbourCells_def
      colCount_app_def rowCount_app_def)

lemma flipLogic_app_toggled:
  assumes "0 \<le> column" "column < int colCount_app" "0 \<le> row" "row < int rowCount_app"
  shows "flipLogic_app s column row =
         Inr (toggled (cellId ` set (neighbourCells colCount_app rowCount_app column row)) s)"
proof -
  have ids: "map (\<lambda>(dx, dy). getPuzzleCellIdFromCooordinate (column + dx) (row + dy))
               (tl (getAffectedCoordinates_app column row))
             = map cellId (toggledCells_app column row)"
    by (simp add: toggledCells_app_def cellId_def comp_def case_prod_unfold)
  have "inj_on cellId (set (toggledCells_app column row))"
    unfolding toggledCells_app_set [OF assms]
    by (rule cellId_inj_on) (simp_all add: colCount_app_def rowCount_app_def)
  then have "distinct (map cellId (toggledCells_app column row))"
    by (simp add: distinct_map toggledCells_app_distinct [OF assms])
  then have "foldl toggleKey s (map cellId (toggledCells_app column row)) =
             toggled (cellId ` set (neighbourCells colCount_app rowCount_app column row)) s"
    using foldl_toggleKey [of "map cellId (toggledCells_app column row)" s]
    by (simp add: toggledCells_app_set [OF assms])
  moreover have "flipLogic_app s column row =
     Inr (foldl toggleKey s (map cellId (toggledCells_app column row)))"
    unfolding ids [symmetric]
    by (simp add: flipLogic_app_def applyAffectedCoordinatesToState_app_def
        getAffectedCoordinates_app_def toggleOffset_app_eq foldl_toggleOffset)
  ultimately show ?thesis by simp
qed

lemma toggledCells_on_distinct: "distinct (toggledCells_on cols rows column row)"
  by (simp add: toggledCells_on_def getAffectedCoordinates_def distinct_map inj_on_def)

text \<open>
  Claim C3. On the 4x4 grid, for every click with \<open>0 \<le> column < 4\<close> and
  \<open>0 \<le> row < 4\<close>, the region-branching \<open>getAffectedCoordinates\<close> of \<^verbatim>\<open>src/App.js\<close>
  makes the reducer toggle the same set of cells, each once, as the uniform offsets
  followed by the bounds filter of the 5x5 files read at \<open>colCount = rowCount = 4\<close>;
  hence both return the same next state for any input state.
\<close>

theorem edge_aware_refines_uniform_filter:
  assumes "0 \<le> column" "column < int colCount_app" "0 \<le> row" "row < int rowCount_app"
  shows "set (toggledCells_app column row) = set (toggledCells_on 4 4 column row) \<and>
         distinct (toggledCells_app column row) \<and>
         distinct (toggledCells_on 4 4 column row) \<and>
         flipLogic_app state column row = flipLogic_on 4 4 state column row"
proof -
  have four: "colCount_app = 4" "rowCount_app = 4"
    by (simp_all add: colCount_app_def rowCount_app_def)
  have "toggledCells_on 4 4 column row = neighbourCells 4 4 column row"
    using assms by (intro toggledCells_on_eq) (simp_all add: four)
  then have "set (toggledCells_app column row) = set (toggledCells_on 4 4 column row)"
    using toggledCells_app_set [OF assms] by (simp add: four)
  moreover have "flipLogic_on 4 4 state column row =
      Inr (toggled (cellId ` set (neighbourCells 4 4 column row)) state)"
    using assms by (intro flipLogic_on_toggled) (simp_all add: four)
  then have "flipLogic_app state column row = flipLogic_on 4 4 state column row"
    using flipLogic_app_toggled [OF assms, of state] by (simp add: four)
  ultimately show ?thesis
    by (simp add: toggledCells_app_distinct [OF assms] toggledCells_on_distinct)
qed

theorem edge_aware_refines_uniform_filter_witness:
  "(0::int) \<le> 3 \<and> (3::int) < int colCount_app \<and> (3::int) < int rowCount_app \<and>
   set (toggledCells_app 3 0) = set (toggledCells_on 4 4 3 0) \<and>
   flipLogic_app Map.empty 3 0 = flipLogic_on 4 4 Map.empty 3 0"
proof -
  have b: "(0::int) \<le> 3" "(3::int) < int colCount_app" "(0::int) \<le> 0" "(0::int) < int rowCount_app"
    "(3::int) < int rowCount_app"
    by (simp_all add: colCount_app_def rowCount_app_def)
  from edge_aware_refines_uniform_filter [OF b(1) b(2) b(3) b(4), of Map.empty] b
  show ?thesis by simp
qed

subsection \<open>Clicking the same cell twice\<close>

lemma truthy_toggled_twice: "truthy (toggled K (toggled K s)) k = truthy s k"
  by (simp add: truthy_toggled)

lemma flipTwice_toggled:
  assumes "0 \<le> column" "column < int colCount" "0 \<le> row" "row < int rowCount"
  shows "flipTwice s column row =
     Inr (toggled (cellId ` set (neighbourCells colCount rowCount column row))
           (toggled (cellId ` set (neighbourCells colCount rowCount column row)) s))"
  by (simp add: flipTwice_def flipLogic_toggled [OF assms])

lemma flipTwice_app_toggled:
  assumes "0 \<le> column" "column < int colCount_app" "0 \<le> row" "row < int rowCount_app"
  shows "flipTwice_app s column row =
     Inr (toggled (cellId ` set (neighbourCells colCount_app rowCount_app column row))
           (toggled (cellId ` set (neighbourCells colCount_app rowCount_app column row)) s))"
  by (simp add: flipTwice_app_def flipLogic_app_toggled [OF assms])

lemma toggled_twice:
  "toggled K (toggled K s) = (\<lambda>ident. if ident \<in> K then Some (truthy s ident) else s ident)"
  by (simp add: toggled_def truthy_def fun_eq_iff)

text \<open>
  Claim C2. For every state and every click inside the grid, on the 5x5 grid and on the
  4x4 grid, two clicks on the same cell return a state equal to the original puzzle
  state: every cell identifier reads in it as it did in the original, a missing key
  being equivalent to unlit. The returned object is the original one key for key outside
  the clicked cell and its in-grid neighbours, and under each of their identifiers it
  holds the boolean that the original read as there.
\<close>

theorem flipTwice_identity:
  "(0 \<le> column \<and> column < int colCount \<and> 0 \<le> row \<and> row < int rowCount \<longrightarrow>
      (\<exists>s'. flipTwice state column row = Inr s' \<and> sameState s' state \<and>
         s' = (\<lambda>ident. if ident \<in> cellId ` set (neighbourCells colCount rowCount column row)
                        then Some (truthy state ident) else state ident))) \<and>
   (0 \<le> column \<and> column < int colCount_app \<and> 0 \<le> row \<and> row < int rowCount_app \<longrightarrow>
      (\<exists>s'. flipTwice_app state column row = Inr s' \<and> sameState s' state \<and>
         s' = (\<lambda>ident. if ident \<in> cellId ` set (neighbourCells colCount_app rowCount_app column row)
                        then Some (truthy state ident) else state ident)))"
proof (intro conjI impI)
  assume b: "0 \<le> column \<and> column < int colCount \<and> 0 \<le> row \<and> row < int rowCount"
  let ?K = "cellId ` set (neighbourCells colCount rowCount column row)"
  from b have "flipTwice state column row = Inr (toggled ?K (toggled ?K state))"
    by (simp add: flipTwice_toggled)
  moreover have "sameState (toggled ?K (toggled ?K state)) state"
    by (simp add: sameState_def fun_eq_iff truthy_toggled_twice)
  ultimately show "\<exists>s'. flipTwice state column row = Inr s' \<and> sameState s' state \<and>
         s' = (\<lambda>ident. if ident \<in> ?K then Some (truthy state ident) else state ident)"
    by (simp add: toggled_twice)
next
  assume b: "0 \<le> column \<and> column < int colCount_app \<and> 0 \<le> row \<and> row < int rowCount_app"
  let ?K = "cellId ` set (neighbourCells colCount_app rowCount_app column row)"
  from b have "flipTwice_app state column row = Inr (toggled ?K (toggled ?K state))"
    by (simp add: flipTwice_app_toggled)
  moreover have "sameState (toggled ?K (toggled ?K state)) state"
    by (simp add: sameState_def fun_eq_iff truthy_toggled_twice)
  ultimately show "\<exists>s'. flipTwice_app state column row = Inr s' \<and> sameState s' state \<and>
         s' = (\<lambda>ident. if ident \<in> ?K then Some (truthy state ident) else state ident)"
    by (simp add: toggled_twice)
qed

theorem flipTwice_identity_witness:
  "(0::int) \<le> 0 \<and> (0::int) < int colCount \<and> (0::int) < int rowCount \<and>
   (0::int) < int colCount_app \<and> (0::int) < int rowCount_app \<and>
   (\<exists>s'. flipTwice emptyState 0 0 = Inr s' \<and> sameState s' emptyState) \<and>
   (\<exists>s'. flipTwice_app emptyState 0 0 = Inr s' \<and> sameState s' emptyState)"
proof -
  have b: "(0::int) \<le> 0" "(0::int) < int colCount" "(0::int) < int rowCount"
    "(0::int) < int colCount_app" "(0::int) < int rowCount_app"
    by (simp_all add: colCount_def rowCount_def colCount_app_def rowCount_app_def)
  from flipTwice_identity [of 0 0 emptyState] b
  have "\<exists>s'. flipTwice emptyState 0 0 = Inr s' \<and> sameState s' emptyState"
    and "\<exists>s'. flipTwice_app emptyState 0 0 = Inr s' \<and> sameState s' emptyState"
    by simp_all
  with b show ?thesis by simp
qed

subsection \<open>What a click leaves unchanged\<close>

lemma foldl_toggleOffset_st:
  "a < length h \<Longrightarrow>
   \<exists>a' h'. foldl (toggleOffset_st column row) (a, h) offs = (a', h') \<and>
     a' < length h' \<and> a \<le> a' \<and> take (length h) h' = h \<and>
     h' ! a' = foldl (toggleOffset column row) (h ! a) offs"
proof (induction offs arbitrary: a h)
  case Nil
  then show ?case by simp
next
  case (Cons d offs)
  obtain dx dy where d: "d = (dx, dy)" by (cases d)
  let ?obj = "toggleOffset column row (h ! a) d"
  have step: "toggleOffset_st column row (a, h) d = (length h, h @ [?obj])"
    by (simp add: d toggleOffset_st_def toggleOffset_def alloc_def Let_def)
  have "length h < length (h @ [?obj])" by simp
  from Cons.IH [OF this]
  obtain a' h' where r: "foldl (toggleOffset_st column row) (length h, h @ [?obj]) offs = (a', h')"
    and a': "a' < length h'" "length h \<le> a'"
    and tk: "take (length (h @ [?obj])) h' = h @ [?obj]"
    and obj: "h' ! a' = foldl (toggleOffset column row) ((h @ [?obj]) ! length h) offs"
    by blast
  from tk have "take (length h) (take (length (h @ [?obj])) h') = take (length h) (h @ [?obj])"
    by simp
  then have "take (length h) h' = h" by (simp add: min_def)
  with r a' obj Cons.prems show ?case by (simp add: step)
qed

lemma flipLogic_st_pure:
  assumes "state < length h"
  shows "\<exists>s' h'. flipLogic_st state column row h = Inr (s', h') \<and> s' < length h' \<and>
           length h \<le> s' \<and> take (length h) h' = h \<and>
           flipLogic (h ! state) column row = Inr (h' ! s')"
proof -
  let ?offs = "filter (isOutOfBounds column row) (tl (getAffectedCoordinates column row))"
  have "length h < length (h @ [h ! state])" by simp
  from foldl_toggleOffset_st [OF this, of column row ?offs]
  obtain a' h' where r: "foldl (toggleOffset_st column row) (length h, h @ [h ! state]) ?offs = (a', h')"
    and a': "a' < length h'" "length h \<le> a'"
    and tk: "take (length (h @ [h ! state])) h' = h @ [h ! state]"
    and obj: "h' ! a' = foldl (toggleOffset column row) ((h @ [h ! state]) ! length h) ?offs"
    by blast
  from tk have "take (length h) (take (length (h @ [h ! state])) h') = take (length h) (h @ [h ! state])"
    by simp
  then have "take (length h) h' = h" by (simp add: min_def)
  moreover have "flipLogic_st state column row h = Inr (a', h')"
    using r by (simp add: flipLogic_st_def applyAffectedCoordinatesToState_st_def
        getAffectedCoordinates_def alloc_def)
  moreover have "flipLogic (h ! state) column row = Inr (h' ! a')"
    using obj by (simp add: flipLogic_def flipLogic_on_def applyAffectedCoordinatesToState_on_def
        getAffectedCoordinates_def isOutOfBounds_def)
  ultimately show ?thesis using a' by blast
qed

lemma flipLogic_app_st_pure:
  assumes "state < length h"
  shows "\<exists>s' h'. flipLogic_app_st state column row h = Inr (s', h') \<and> s' < length h' \<and>
           length h \<le> s' \<and> take (length h) h' = h \<and>
           flipLogic_app (h ! state) column row = Inr (h' ! s')"
proof -
  let ?offs = "tl (getAffectedCoordinates_app column row)"
  have aff: "getAffectedCoordinates_app column row = (column, row) # ?offs"
    by (simp add: getAffectedCoordinates_app_def)
  have "length h < length (h @ [h ! state])" by simp
  from foldl_toggleOffset_st [OF this, of column row ?offs]
  obtain a' h' where r: "foldl (toggleOffset_st column row) (length h, h @ [h ! state]) ?offs = (a', h')"
    and a': "a' < length h'" "length h \<le> a'"
    and tk: "take (length (h @ [h ! state])) h' = h @ [h ! state]"
    and obj: "h' ! a' = foldl (toggleOffset column row) ((h @ [h ! state]) ! length h) ?offs"
    by blast
  from tk have "take (length h) (take (length (h @ [h ! state])) h') = take (length h) (h @ [h ! state])"
    by simp
  then have "take (length h) h' = h" by (simp add: min_def)
  moreover have "flipLogic_app_st state column row h = Inr (a', h')"
    unfolding flipLogic_app_st_def Let_def applyAffectedCoordinatesToState_app_st_def
    by (subst aff) (simp add: r alloc_def del: tl_append2)
  moreover have "flipLogic_app (h ! state) column row = Inr (h' ! a')"
    unfolding flipLogic_app_def Let_def applyAffectedCoordinatesToState_app_def
    by (subst aff) (simp add: obj toggleOffset_app_eq)
  ultimately show ?thesis using a' by blast
qed

lemma toggled_outside: "ident \<notin> K \<Longrightarrow> toggled K s ident = s ident"
  by (simp add: toggled_def)

lemma take_nth_same: "take n h' = h \<Longrightarrow> i < length h \<Longrightarrow> h' ! i = h ! i"
  by (metis length_take min_less_iff_conj nth_take)

text \<open>
  Claim C5. For every state and every click inside the grid, on the 5x5 grid and on the
  4x4 grid, \<open>flipLogic\<close> returns a new object that differs from the input state only
  at identifiers of the clicked cell and its in-grid orthogonal neighbours: at every other
  identifier the returned state holds what the input state holds. The input object, like
  every object that existed before the call, is left unmodified.
\<close>

theorem flipLogic_frame:
  assumes "state < length h"
  shows
   "(0 \<le> column \<and> column < int colCount \<and> 0 \<le> row \<and> row < int rowCount \<longrightarrow>
      (\<exists>s' h'. flipLogic_st state column row h = Inr (s', h') \<and>
         s' < length h' \<and> length h \<le> s' \<and>
         (\<forall>ident. ident \<notin> cellId ` set (neighbourCells colCount rowCount column row)
            \<longrightarrow> (h' ! s') ident = (h ! state) ident) \<and>
         h' ! state = h ! state \<and> take (length h) h' = h)) \<and>
    (0 \<le> column \<and> column < int colCount_app \<and> 0 \<le> row \<and> row < int rowCount_app \<longrightarrow>
      (\<exists>s' h'. flipLogic_app_st state column row h = Inr (s', h') \<and>
         s' < length h' \<and> length h \<le> s' \<and>
         (\<forall>ident. ident \<notin> cellId ` set (neighbourCells colCount_app rowCount_app column row)
            \<longrightarrow> (h' ! s') ident = (h ! state) ident) \<and>
         h' ! state = h ! state \<and> take (length h) h' = h))"
proof (intro conjI impI)
  assume b: "0 \<le> column \<and> column < int colCount \<and> 0 \<le> row \<and> row < int rowCount"
  from flipLogic_st_pure [OF assms, of column row]
  obtain s' h' where r: "flipLogic_st state column row h = Inr (s', h')"
    and s': "s' < length h'" "length h \<le> s'" and tk: "take (length h) h' = h"
    and pure: "flipLogic (h ! state) column row = Inr (h' ! s')" by blast
  from b pure have "h' ! s' = toggled (cellId ` set (neighbourCells colCount rowCount column row)) (h ! state)"
    by (simp add: flipLogic_toggled)
  then have "\<forall>ident. ident \<notin> cellId ` set (neighbourCells colCount rowCount column row)
            \<longrightarrow> (h' ! s') ident = (h ! state) ident"
    by (simp add: toggled_outside)
  moreover have "h' ! state = h ! state" using tk assms by (rule take_nth_same)
  ultimately show "\<exists>s' h'. flipLogic_st state column row h = Inr (s', h') \<and>
         s' < length h' \<and> length h \<le> s' \<and>
         (\<forall>ident. ident \<notin> cellId ` set (neighbourCells colCount rowCount column row)
            \<longrightarrow> (h' ! s') ident = (h ! state) ident) \<and>
         h' ! state = h ! state \<and> take (length h) h' = h"
    using r s' tk by blast
next
  assume b: "0 \<le> column \<and> column < int colCount_app \<and> 0 \<le> row \<and> row < int rowCount_app"
  from flipLogic_app_st_pure [OF assms, of column row]
  obtain s' h' where r: "flipLogic_app_st state column row h = Inr (s', h')"
    and s': "s' < length h'" "length h \<le> s'" and tk: "take (length h) h' = h"
    and pure: "flipLogic_app (h ! state) column row = Inr (h' ! s')" by blast
  from b pure have "h' ! s' = toggled (cellId ` set (neighbourCells colCount_app rowCount_app column row)) (h ! state)"
    by (simp add: flipLogic_app_toggled)
  then have "\<forall>ident. ident \<notin> cellId ` set (neighbourCells colCount_app rowCount_app column row)
            \<longrightarrow> (h' ! s') ident = (h ! state) ident"
    by (simp add: toggled_outside)
  moreover have "h' ! state = h ! state" using tk assms by (rule take_nth_same)
  ultimately show "\<exists>s' h'. flipLogic_app_st state column row h = Inr (s', h') \<and>
         s' < length h' \<and> length h \<le> s' \<and>
         (\<forall>ident. ident \<notin> cellId ` set (neighbourCells colCount_app rowCount_app column row)
            \<longrightarrow> (h' ! s') ident = (h ! state) ident) \<and>
         h' ! state = h ! state \<and> take (length h) h' = h"
    using r s' tk by blast
qed

theorem flipLogic_frame_witness:
  "(0::nat) < length [emptyState] \<and>
   (1::int) < int colCount \<and> (1::int) < int rowCount \<and>
   (1::int) < int colCount_app \<and> (1::int) < int rowCount_app \<and>
   ''4_4'' \<notin> cellId ` set (neighbourCells colCount rowCount 1 1) \<and>
   ''3_3'' \<notin> cellId ` set (neighbourCells colCount_app rowCount_app 1 1) \<and>
   (\<exists>s' h'. flipLogic_st 0 1 1 [emptyState] = Inr (s', h') \<and>
       (h' ! s') ''4_4'' = emptyState ''4_4'' \<and> h' ! 0 = emptyState) \<and>
   (\<exists>s' h'. flipLogic_app_st 0 1 1 [emptyState] = Inr (s', h') \<and>
       (h' ! s') ''3_3'' = emptyState ''3_3'' \<and> h' ! 0 = emptyState)"
proof -
  have l: "(0::nat) < length [emptyState]" by simp
  have b: "(0::int) \<le> 1" "(1::int) < int colCount" "(1::int) < int rowCount"
    "(1::int) < int colCount_app" "(1::int) < int rowCount_app"
    by (simp_all add: colCount_def rowCount_def colCount_app_def rowCount_app_def)
  have n: "''4_4'' \<notin> cellId ` set (neighbourCells colCount rowCount 1 1)"
    "''3_3'' \<notin> cellId ` set (neighbourCells colCount_app rowCount_app 1 1)"
    by (simp_all add: neighbourCells_def cellId_def cellId_small digitChar_def
        colCount_def rowCount_def colCount_app_def rowCount_app_def)
  from flipLogic_frame [OF l, of 1 1] b n
  have "(\<exists>s' h'. flipLogic_st 0 1 1 [emptyState] = Inr (s', h') \<and>
       (h' ! s') ''4_4'' = emptyState ''4_4'' \<and> h' ! 0 = emptyState)"
    and "(\<exists>s' h'. flipLogic_app_st 0 1 1 [emptyState] = Inr (s', h') \<and>
       (h' ! s') ''3_3'' = emptyState ''3_3'' \<and> h' ! 0 = emptyState)"
    by fastforce+
  with l b n show ?thesis by simp
qed

subsection \<open>Actions of an unknown type\<close>

lemma puzzleReducer_unknown_noop:
  assumes "objectPrototype (action_type a) = None"
  shows "action_type a \<notin> {''RESET_PUZZLE'', ''FLIP'', ''FLIP_SINGLE''} \<Longrightarrow>
           puzzleReducer_p000 state a = Inr (StateV state)"
    and "action_type a \<notin> {''RESET_PUZZLE'', ''FLIP''} \<Longrightarrow>
           puzzleReducer_p001 state a = Inr (StateV state)"
    and "action_type a \<notin> {''RESET_PUZZLE'', ''FLIP''} \<Longrightarrow>
           puzzleReducer_app state a = Inr (StateV state)"
  using assms
  by (simp_all add: puzzleReducer_p000_def puzzleReducerActionHandlers_p000_def
      puzzleReducer_p001_def puzzleReducerActionHandlers_p001_def
      puzzleReducer_app_def puzzleReducerActionHandlers_app_def)

lemma objectPrototype_None_example: "objectPrototype ''UNDO'' = None"
  by (simp add: objectPrototype_def)

text \<open>
  Claim C8 says that for every action whose type is not \<^verbatim>\<open>RESET_PUZZLE\<close>, \<^verbatim>\<open>FLIP\<close> or
  (in the editor variant) \<^verbatim>\<open>FLIP_SINGLE\<close>, \<open>puzzleReducer\<close> returns the input state
  unchanged and raises no error. The code does so for a type that is no property name
  of \<^verbatim>\<open>Object.prototype\<close> (lemma \<open>puzzleReducer_unknown_noop\<close>), but the lookup of the
  handler also finds inherited properties: for the type \<^verbatim>\<open>toString\<close> the reducer
  returns the text \<^verbatim>\<open>[object Undefined]\<close> in place of the state, and for the type
  \<^verbatim>\<open>hasOwnProperty\<close> it throws a TypeError, in the editor variant and in \<^verbatim>\<open>src/App.js\<close>.
\<close>

theorem puzzleReducer_inherited_handler:
  "puzzleReducer_p000 emptyState \<lparr>action_type = ''toString'', action_column = 0, action_row = 0\<rparr>
     = Inr (StringV ''[object Undefined]'') \<and>
   puzzleReducer_p000 emptyState \<lparr>action_type = ''hasOwnProperty'', action_column = 0, action_row = 0\<rparr>
     = Inl TypeError \<and>
   puzzleReducer_app emptyState \<lparr>action_type = ''toString'', action_column = 0, action_row = 0\<rparr>
     = Inr (StringV ''[object Undefined]'') \<and>
   puzzleReducer_app emptyState \<lparr>action_type = ''hasOwnProperty'', action_column = 0, action_row = 0\<rparr>
     = Inl TypeError"
  by (simp add: puzzleReducer_p000_def puzzleReducerActionHandlers_p000_def
      puzzleReducer_app_def puzzleReducerActionHandlers_app_def objectPrototype_def)

end
